theory Spec2Isabelle
  imports Complex_Main "HOL-Library.AList" "HOL-Library.Sublist"
begin

section \<open>Python values, exceptions and built-ins used by the two scripts\<close>

text \<open>
  Strings are lists of \<^typ>\<open>char\<close>, each character read as a code point below 256.
  A field value of a record is what the pipeline of \<^verbatim>\<open>data_parser.py\<close> can hold: text
  as \<^verbatim>\<open>csv.DictReader\<close> yields it, \<^verbatim>\<open>None\<close> (the reader's \<^verbatim>\<open>restval\<close> of a short row), or
  an integer as \<^verbatim>\<open>normalize_age\<close> stores it.  Floats occur only as the result of
  \<^verbatim>\<open>get_average_age\<close>.
\<close>

datatype pyval = PNone | PStr string | PInt int

text \<open>The exceptions the two scripts can raise or let through.\<close>

datatype pyerr =
    KeyError string
  | ValueError
  | TypeError
  | ZeroDivisionError
  | OverflowError
  | FileNotFoundError string
  | OSError string
  | UnicodeDecodeError
  | CsvError
  | OpenAIError string
  | SystemExit nat

text \<open>A dict with string keys, in insertion order; an object on the heap is one of these.\<close>

type_synonym pydict = "(string \<times> pyval) list"

text \<open>\<^verbatim>\<open>d[k]\<close>: the value, or \<^verbatim>\<open>KeyError\<close>.\<close>

definition getitem :: "pydict \<Rightarrow> string \<Rightarrow> pyerr + pyval" where
  "getitem d k = (case map_of d k of None \<Rightarrow> Inl (KeyError k) | Some v \<Rightarrow> Inr v)"

text \<open>\<^verbatim>\<open>d[k] = v\<close>: an existing key keeps its place, a new key goes last.\<close>

definition setitem :: "pydict \<Rightarrow> string \<Rightarrow> pyval \<Rightarrow> pydict" where
  "setitem d k v = AList.update k v d"

text \<open>\<^verbatim>\<open>a == b\<close> on these values: equal type and equal content.\<close>

definition py_eq :: "pyval \<Rightarrow> pyval \<Rightarrow> bool" where
  "py_eq a b = (a = b)"

subsection \<open>The built-in \<^verbatim>\<open>int\<close>\<close>

text \<open>
  \<^verbatim>\<open>int(s)\<close> on text skips white space at both ends (tab to carriage return, space, and
  the two white-space code points 133 and 160 above ASCII), reads an optional sign, then
  decimal digits in which single underscores may separate digits.  More than
  \<^verbatim>\<open>sys.get_int_max_str_digits()\<close> digits (4300 unless reconfigured) are refused.  Anything
  else is a \<^verbatim>\<open>ValueError\<close>.
\<close>

definition int_space :: "char \<Rightarrow> bool" where
  "int_space c = (let n = (of_char c :: nat) in (9 \<le> n \<and> n \<le> 13) \<or> n = 32 \<or> n = 133 \<or> n = 160)"

definition is_digit :: "char \<Rightarrow> bool" where
  "is_digit c = (let n = (of_char c :: nat) in 48 \<le> n \<and> n \<le> 57)"

definition digit_val :: "char \<Rightarrow> nat" where
  "digit_val c = of_char c - 48"

fun digit_groups :: "string \<Rightarrow> bool" where
  "digit_groups [] = False"
| "digit_groups [c] = is_digit c"
| "digit_groups (c # d # cs) =
     (is_digit c \<and> (if d = CHR ''_'' then digit_groups cs else digit_groups (d # cs)))"

definition int_max_str_digits :: nat where
  "int_max_str_digits = 4300"

definition int_of_str :: "string \<Rightarrow> pyerr + int" where
  "int_of_str s =
     (let s1 = dropWhile int_space s;
          neg = (case s1 of [] \<Rightarrow> False | c # _ \<Rightarrow> c = CHR ''-'');
          s2 = (case s1 of [] \<Rightarrow> [] | c # r \<Rightarrow> if c = CHR ''-'' \<or> c = CHR ''+'' then r else s1);
          s3 = rev (dropWhile int_space (rev s2));
          ds = filter (\<lambda>c. c \<noteq> CHR ''_'') s3
      in if \<not> digit_groups s3 \<or> int_max_str_digits < length ds then Inl ValueError
         else let n = int (foldl (\<lambda>acc c. 10 * acc + digit_val c) 0 ds)
              in Inr (if neg then - n else n))"

text \<open>\<^verbatim>\<open>int(v)\<close>: an integer is returned as it is, \<^verbatim>\<open>None\<close> is a \<^verbatim>\<open>TypeError\<close>.\<close>

fun py_int :: "pyval \<Rightarrow> pyerr + int" where
  "py_int (PInt n) = Inr n"
| "py_int (PStr s) = int_of_str s"
| "py_int PNone = Inl TypeError"

subsection \<open>True division of integers\<close>

text \<open>
  \<^verbatim>\<open>x / y\<close> on integers is a float: the double nearest to the quotient, ties going to the
  even mantissa, \<^verbatim>\<open>ZeroDivisionError\<close> when \<^verbatim>\<open>y\<close> is zero and \<^verbatim>\<open>OverflowError\<close> when the
  rounded quotient is beyond the doubles.  A finite double is represented by the rational
  number it denotes.
\<close>

datatype pyfloat = Float rat

fun bits :: "nat \<Rightarrow> nat" where
  "bits n = (if n = 0 then 0 else Suc (bits (n div 2)))"

declare bits.simps [simp del]

text \<open>The integer part of the binary logarithm of \<open>a / b\<close>, for positive \<open>a\<close> and \<open>b\<close>.\<close>

definition ilog2_quot :: "nat \<Rightarrow> nat \<Rightarrow> int" where
  "ilog2_quot a b =
     (let d = int (bits a) - int (bits b)
      in if (if 0 \<le> d then b * 2 ^ nat d \<le> a else b \<le> a * 2 ^ nat (- d)) then d else d - 1)"

text \<open>The integer nearest to \<open>n / d\<close>, a tie going to the even one.\<close>

definition round_half_even :: "nat \<Rightarrow> nat \<Rightarrow> nat" where
  "round_half_even n d =
     (let q = n div d; r = n mod d
      in if 2 * r < d then q else if d < 2 * r then q + 1 else if even q then q else q + 1)"

definition scale2 :: "int \<Rightarrow> rat" where
  "scale2 e = (if 0 \<le> e then 2 ^ nat e else 1 / 2 ^ nat (- e))"

text \<open>
  The double nearest to \<open>a / b\<close>: a mantissa of 53 bits, or fewer below the smallest
  normal number, where the exponent of the last place stays at \<open>-1074\<close>.
\<close>

definition nearest_double :: "nat \<Rightarrow> nat \<Rightarrow> rat" where
  "nearest_double a b =
     (let e = max (ilog2_quot a b - 52) (- 1074);
          m = (if 0 \<le> e then round_half_even a (b * 2 ^ nat e)
               else round_half_even (a * 2 ^ nat (- e)) b)
      in of_nat m * scale2 e)"

definition py_true_div :: "int \<Rightarrow> int \<Rightarrow> pyerr + pyfloat" where
  "py_true_div x y =
     (if y = 0 then Inl ZeroDivisionError
      else if x = 0 then Inr (Float 0)
      else let v = nearest_double (nat \<bar>x\<bar>) (nat \<bar>y\<bar>)
           in if 2 ^ 1024 \<le> v then Inl OverflowError
              else Inr (Float (if (x < 0) \<noteq> (y < 0) then - v else v)))"

subsection \<open>The \<^verbatim>\<open>json\<close> module on RecordSets\<close>

text \<open>
  \<^verbatim>\<open>json.dump\<close> with its defaults writes a list of dicts as \<^verbatim>\<open>[{"k": v, ...}, ...]\<close>, the
  separators being \<^verbatim>\<open>", "\<close> and \<^verbatim>\<open>": "\<close>.  Text is quoted; inside it the quote and the
  backslash are escaped, the control characters with a short escape use it, and every
  other character outside the printable ASCII range is written \<^verbatim>\<open>\u00XX\<close>.  An integer
  is written in decimal, which raises \<^verbatim>\<open>ValueError\<close> beyond the digit limit of \<^verbatim>\<open>int\<close>;
  \<^verbatim>\<open>None\<close> is written \<^verbatim>\<open>null\<close>.
\<close>

definition hex_char :: "nat \<Rightarrow> char" where
  "hex_char n = (if n < 10 then char_of (48 + n) else char_of (87 + n))"

definition hex4 :: "nat \<Rightarrow> string" where
  "hex4 n = [hex_char (n div 4096 mod 16), hex_char (n div 256 mod 16),
             hex_char (n div 16 mod 16), hex_char (n mod 16)]"

definition esc_char :: "char \<Rightarrow> string" where
  "esc_char c =
     (let n = (of_char c :: nat)
      in if n = 34 then [CHR 0x5C, CHR 0x22]
         else if n = 92 then [CHR 0x5C, CHR 0x5C]
         else if n = 10 then [CHR 0x5C, CHR ''n'']
         else if n = 13 then [CHR 0x5C, CHR ''r'']
         else if n = 9 then [CHR 0x5C, CHR ''t'']
         else if n = 8 then [CHR 0x5C, CHR ''b'']
         else if n = 12 then [CHR 0x5C, CHR ''f'']
         else if 32 \<le> n \<and> n \<le> 126 then [c]
         else CHR 0x5C # CHR ''u'' # hex4 n)"

definition enc_str :: "string \<Rightarrow> string" where
  "enc_str s = CHR 0x22 # concat (map esc_char s) @ [CHR 0x22]"













definition hex_val :: "char \<Rightarrow> nat option" where
  "hex_val c =
     (let n = (of_char c :: nat)
      in if 48 \<le> n \<and> n \<le> 57 then Some (n - 48)
         else if 97 \<le> n \<and> n \<le> 102 then Some (n - 87)
         else if 65 \<le> n \<and> n \<le> 70 then Some (n - 55)
         else None)"

definition unescape :: "char \<Rightarrow> char option" where
  "unescape e =
     (if e = CHR 0x22 \<or> e = CHR 0x5C \<or> e = CHR ''/'' then Some e
      else if e = CHR ''b'' then Some (CHR 0x08)
      else if e = CHR ''f'' then Some (CHR 0x0C)
      else if e = CHR ''n'' then Some (CHR 0x0A)
      else if e = CHR ''r'' then Some (CHR 0x0D)
      else if e = CHR ''t'' then Some (CHR 0x09)
      else None)"

fun scan_string :: "string \<Rightarrow> string \<Rightarrow> (string \<times> string) option" where
  "scan_string [] acc = None"
| "scan_string (c # cs) acc =
     (if c = CHR 0x22 then Some (acc, cs)
      else if c = CHR 0x5C then
        (case cs of
           [] \<Rightarrow> None
         | e # r \<Rightarrow>
             if e = CHR ''u'' then
               (case r of
                  a # b # x # y # r' \<Rightarrow>
                    (case (hex_val a, hex_val b, hex_val x, hex_val y) of
                       (Some h3, Some h2, Some h1, Some h0) \<Rightarrow>
                         (let n = ((h3 * 16 + h2) * 16 + h1) * 16 + h0
                          in if n < 256 then scan_string r' (acc @ [char_of n]) else None)
                     | _ \<Rightarrow> None)
                | _ \<Rightarrow> None)
             else (case unescape e of None \<Rightarrow> None | Some d \<Rightarrow> scan_string r (acc @ [d])))
      else if (of_char c :: nat) < 32 then None
      else scan_string cs (acc @ [c]))"








section \<open>\<^verbatim>\<open>data_parser.py\<close>\<close>

text \<open>
  The records are dict objects that \<^verbatim>\<open>normalize_age\<close> mutates in place and that the lists
  returned by the functions share, so the model keeps them in a store: an address is a
  natural number, the heap gives every address its dict, and a RecordSet is the list of
  the addresses of its records; \<open>fresh\<close> is the next address never used.  A path of the
  file system holds text, or cannot be opened (\<open>Denied\<close>, with the exception \<^verbatim>\<open>open\<close>
  raises), or opens and fails to decode when read (\<open>Garbled\<close>); \<open>handles\<close> lists the paths
  of the files that are open.  What \<^verbatim>\<open>csv.DictReader\<close> yields for a text is a component of
  the world: for each text the rows, in order, ending early with the exception the reader
  raises if it raises one.
\<close>

type_synonym addr = nat

datatype fnode = Text string | Denied pyerr | Garbled

datatype csv_item = Row pydict | Boom pyerr

record world =
  heap :: "addr \<Rightarrow> pydict"
  fresh :: addr
  fs :: "string \<rightharpoonup> fnode"
  handles :: "string list"
  dict_reader :: "string \<Rightarrow> csv_item list"

text \<open>
  \<^verbatim>\<open>for record in records: record["age"] = int(record["age"])\<close>.  An exception leaves the
  loop at once; the assignments already made stay in the heap.
\<close>

fun normalize_loop :: "world \<Rightarrow> addr list \<Rightarrow> (pyerr + unit) \<times> world" where
  "normalize_loop w [] = (Inr (), w)"
| "normalize_loop w (a # rest) =
     (case getitem (heap w a) ''age'' of
        Inl e \<Rightarrow> (Inl e, w)
      | Inr v \<Rightarrow>
          (case py_int v of
             Inl e \<Rightarrow> (Inl e, w)
           | Inr n \<Rightarrow>
               normalize_loop
                 (w\<lparr>heap := (heap w)(a := setitem (heap w a) ''age'' (PInt n))\<rparr>) rest))"

definition normalize_age :: "world \<Rightarrow> addr list \<Rightarrow> (pyerr + addr list) \<times> world" where
  "normalize_age w records =
     (case normalize_loop w records of
        (Inl e, w') \<Rightarrow> (Inl e, w')
      | (Inr _, w') \<Rightarrow> (Inr records, w'))"

text \<open>
  \<^verbatim>\<open>filtered = []\<close>, then each record whose \<^verbatim>\<open>"country"\<close> equals the target is appended.
\<close>

fun filter_loop :: "world \<Rightarrow> pyval \<Rightarrow> addr list \<Rightarrow> addr list \<Rightarrow> pyerr + addr list" where
  "filter_loop w country [] filtered = Inr filtered"
| "filter_loop w country (a # rest) filtered =
     (case getitem (heap w a) ''country'' of
        Inl e \<Rightarrow> Inl e
      | Inr v \<Rightarrow>
          filter_loop w country rest (if py_eq v country then filtered @ [a] else filtered))"

definition filter_by_country :: "world \<Rightarrow> addr list \<Rightarrow> pyval \<Rightarrow> (pyerr + addr list) \<times> world" where
  "filter_by_country w records country = (filter_loop w country records [], w)"

text \<open>
  \<^verbatim>\<open>total = 0\<close>, then \<^verbatim>\<open>total += record["age"]\<close> for each record.  The running total
  (\<open>tot\<close> below) is an integer; adding text or \<^verbatim>\<open>None\<close> to it is a \<^verbatim>\<open>TypeError\<close>.
\<close>

fun add_to_total :: "int \<Rightarrow> pyval \<Rightarrow> pyerr + int" where
  "add_to_total tot (PInt n) = Inr (tot + n)"
| "add_to_total tot (PStr s) = Inl TypeError"
| "add_to_total tot PNone = Inl TypeError"

fun sum_loop :: "world \<Rightarrow> addr list \<Rightarrow> int \<Rightarrow> pyerr + int" where
  "sum_loop w [] tot = Inr tot"
| "sum_loop w (a # rest) tot =
     (case getitem (heap w a) ''age'' of
        Inl e \<Rightarrow> Inl e
      | Inr v \<Rightarrow>
          (case add_to_total tot v of
             Inl e \<Rightarrow> Inl e
           | Inr t \<Rightarrow> sum_loop w rest t))"

definition get_average_age :: "world \<Rightarrow> addr list \<Rightarrow> (pyerr + pyfloat) \<times> world" where
  "get_average_age w records =
     (case sum_loop w records 0 of
        Inl e \<Rightarrow> (Inl e, w)
      | Inr tot \<Rightarrow> (py_true_div tot (int (length records)), w))"

text \<open>
  \<^verbatim>\<open>read_csv\<close>: \<^verbatim>\<open>open(filepath, "r")\<close> raises for a missing path or one that cannot be
  opened, and otherwise adds a handle to the open ones; each row the reader yields is a
  new dict, stored at a fresh address and appended to \<^verbatim>\<open>rows\<close>; \<^verbatim>\<open>f.close()\<close> is the
  statement after the loop, reached when the loop ends without an exception.
\<close>

fun read_rows :: "world \<Rightarrow> csv_item list \<Rightarrow> addr list \<Rightarrow> (pyerr + addr list) \<times> world" where
  "read_rows w [] rows = (Inr rows, w)"
| "read_rows w (Boom e # _) rows = (Inl e, w)"
| "read_rows w (Row r # items) rows =
     read_rows (w\<lparr>heap := (heap w)(fresh w := r), fresh := Suc (fresh w)\<rparr>) items
       (rows @ [fresh w])"

definition close_handle :: "world \<Rightarrow> string \<Rightarrow> world" where
  "close_handle w filepath = w\<lparr>handles := remove1 filepath (handles w)\<rparr>"

text \<open>The body of \<^verbatim>\<open>read_csv\<close> once \<^verbatim>\<open>open\<close> has returned, on the items the reader yields.\<close>

definition read_opened :: "world \<Rightarrow> string \<Rightarrow> csv_item list \<Rightarrow> (pyerr + addr list) \<times> world" where
  "read_opened w filepath items =
     (case read_rows (w\<lparr>handles := filepath # handles w\<rparr>) items [] of
        (Inl e, w') \<Rightarrow> (Inl e, w')
      | (Inr rows, w') \<Rightarrow> (Inr rows, close_handle w' filepath))"

definition read_csv :: "world \<Rightarrow> string \<Rightarrow> (pyerr + addr list) \<times> world" where
  "read_csv w filepath =
     (case fs w filepath of
        None \<Rightarrow> (Inl (FileNotFoundError filepath), w)
      | Some (Denied e) \<Rightarrow> (Inl e, w)
      | Some Garbled \<Rightarrow> read_opened w filepath [Boom UnicodeDecodeError]
      | Some (Text t) \<Rightarrow> read_opened w filepath (dict_reader w t))"




text \<open>
  \<^verbatim>\<open>load_and_process\<close>: the three calls in sequence; an exception of one of them leaves
  the function with the world as it then is.
\<close>

definition load_and_process :: "world \<Rightarrow> string \<Rightarrow> pyval \<Rightarrow> (pyerr + addr list) \<times> world" where
  "load_and_process w filepath country =
     (case read_csv w filepath of
        (Inl e, w1) \<Rightarrow> (Inl e, w1)
      | (Inr records, w1) \<Rightarrow>
          (case normalize_age w1 records of
             (Inl e, w2) \<Rightarrow> (Inl e, w2)
           | (Inr records', w2) \<Rightarrow> filter_by_country w2 records' country))"

section \<open>\<^verbatim>\<open>reviewer.py\<close>\<close>

text \<open>
  The script reads one file, prints, and calls a remote service once.  Its world holds
  the file system, what has been printed (one entry per \<^verbatim>\<open>print\<close> call, by the statement
  that printed it and the values it interpolates), and the accesses to the file system
  and to the service in the order they were made.  What the service answers to a request,
  and the exception the constructor of its client raises if it raises one (it does when
  no credential is configured), are components of the world, as is the text of
  \<^verbatim>\<open>SYSTEM_PROMPT\<close>.
\<close>

datatype message =
    MsgNotFound string
  | MsgWrongType string
  | MsgReadError string
  | MsgEmpty
  | MsgLarge nat
  | MsgUsage
  | MsgReviewing string string
  | MsgApiError string
  | MsgSeparator
  | MsgHeading string
  | MsgModel string
  | MsgReview string

record request =
  req_model :: string
  req_max_tokens :: nat
  req_temperature :: rat
  req_system :: string
  req_user :: string

datatype event = Exists string | ReadText string | ApiCall request

record rworld =
  rfs :: "string \<rightharpoonup> fnode"
  stdout :: "message list"
  trace :: "event list"
  client_error :: "pyerr option"
  service :: "request \<Rightarrow> pyerr + string"
  system_prompt :: string

definition MODEL :: string where
  "MODEL = ''gpt-4o''"

definition MAX_TOKENS :: nat where
  "MAX_TOKENS = 2048"

definition MAX_FILE_CHARS :: nat where
  "MAX_FILE_CHARS = 12000"

definition pr :: "rworld \<Rightarrow> message \<Rightarrow> rworld" where
  "pr w m = w\<lparr>stdout := stdout w @ [m]\<rparr>"

definition log_event :: "rworld \<Rightarrow> event \<Rightarrow> rworld" where
  "log_event w ev = w\<lparr>trace := trace w @ [ev]\<rparr>"

subsection \<open>\<^verbatim>\<open>pathlib\<close> and \<^verbatim>\<open>str.strip\<close>\<close>

text \<open>
  The parts of a POSIX path are its components between slashes, without the empty ones
  and the single dots; the name is the last part, the suffix is the name from its last
  dot on when that dot is neither the first nor the last character of the name.
\<close>

fun split_slash :: "string \<Rightarrow> string \<Rightarrow> string list" where
  "split_slash [] cur = [cur]"
| "split_slash (c # cs) cur =
     (if c = CHR ''/'' then cur # split_slash cs [] else split_slash cs (cur @ [c]))"

definition path_parts :: "string \<Rightarrow> string list" where
  "path_parts p = filter (\<lambda>x. x \<noteq> [] \<and> x \<noteq> ''.'') (split_slash p [])"

definition path_name :: "string \<Rightarrow> string" where
  "path_name p = (case path_parts p of [] \<Rightarrow> [] | _ \<Rightarrow> last (path_parts p))"

definition path_suffix :: "string \<Rightarrow> string" where
  "path_suffix p =
     (let name = path_name p;
          after = length (takeWhile (\<lambda>c. c \<noteq> CHR ''.'') (rev name));
          i = length name - after - 1
      in if CHR ''.'' \<in> set name \<and> 0 < i \<and> 0 < after then drop i name else [])"

text \<open>White space for \<^verbatim>\<open>str.strip()\<close>: the code points for which \<^verbatim>\<open>str.isspace\<close> holds.\<close>

definition str_space :: "char \<Rightarrow> bool" where
  "str_space c =
     (let n = (of_char c :: nat) in (9 \<le> n \<and> n \<le> 13) \<or> (28 \<le> n \<and> n \<le> 32) \<or> n = 133 \<or> n = 160)"

definition py_strip :: "string \<Rightarrow> string" where
  "py_strip s = rev (dropWhile str_space (rev (dropWhile str_space s)))"

subsection \<open>The functions of the script\<close>

text \<open>\<^verbatim>\<open>path.read_text(encoding="utf-8")\<close> on a path that exists.\<close>

definition read_text :: "fnode \<Rightarrow> pyerr + string" where
  "read_text node =
     (case node of
        Text t \<Rightarrow> Inr t
      | Denied e \<Rightarrow> Inl e
      | Garbled \<Rightarrow> Inl UnicodeDecodeError)"

text \<open>
  \<^verbatim>\<open>read_source_file\<close>.  \<^verbatim>\<open>sys.exit(1)\<close> raises \<^verbatim>\<open>SystemExit(1)\<close>; the \<^verbatim>\<open>except OSError\<close> clause
  catches the operating system's errors and lets any other exception through.
\<close>

definition read_source_file :: "rworld \<Rightarrow> string \<Rightarrow> (pyerr + string) \<times> rworld" where
  "read_source_file w filepath =
     (let w1 = log_event w (Exists filepath)
      in case rfs w filepath of
           None \<Rightarrow> (Inl (SystemExit 1), pr w1 (MsgNotFound filepath))
         | Some node \<Rightarrow>
             if path_suffix filepath \<noteq> ''.py''
             then (Inl (SystemExit 1), pr w1 (MsgWrongType (path_suffix filepath)))
             else let w2 = log_event w1 (ReadText filepath)
                  in case read_text node of
                       Inl (OSError e) \<Rightarrow> (Inl (SystemExit 1), pr w2 (MsgReadError e))
                     | Inl (FileNotFoundError e) \<Rightarrow> (Inl (SystemExit 1), pr w2 (MsgReadError e))
                     | Inl e \<Rightarrow> (Inl e, w2)
                     | Inr contents \<Rightarrow>
                         if py_strip contents = []
                         then (Inl (SystemExit 1), pr w2 MsgEmpty)
                         else (Inr contents, w2))"

definition warn_if_large :: "rworld \<Rightarrow> string \<Rightarrow> rworld" where
  "warn_if_large w source_code =
     (let char_count = length source_code
      in if MAX_FILE_CHARS < char_count then pr w (MsgLarge char_count) else w)"

definition build_user_prompt :: "string \<Rightarrow> string \<Rightarrow> string" where
  "build_user_prompt source_code filename =
     ''Please review the following Python file: `'' @ filename @ ''`\<newline>\<newline>''
       @ ''```python\<newline>'' @ source_code @ ''\<newline>```''"

text \<open>
  \<^verbatim>\<open>run_code_review\<close>: \<^verbatim>\<open>client = OpenAI()\<close> stands outside the \<^verbatim>\<open>try\<close>, so an exception
  of the constructor is not caught; the request is the one call to the service, and of
  its exceptions \<^verbatim>\<open>OpenAIError\<close> is caught.
\<close>

definition run_code_review :: "rworld \<Rightarrow> string \<Rightarrow> string \<Rightarrow> (pyerr + string) \<times> rworld" where
  "run_code_review w source_code filename =
     (case client_error w of
        Some e \<Rightarrow> (Inl e, w)
      | None \<Rightarrow>
          let rq = \<lparr>req_model = MODEL, req_max_tokens = MAX_TOKENS, req_temperature = 2 / 10,
                      req_system = system_prompt w,
                      req_user = build_user_prompt source_code filename\<rparr>;
               w1 = log_event w (ApiCall rq)
           in case service w rq of
                Inl (OpenAIError e) \<Rightarrow> (Inl (SystemExit 1), pr w1 (MsgApiError e))
              | Inl e \<Rightarrow> (Inl e, w1)
              | Inr review \<Rightarrow> (Inr review, w1))"

definition print_review :: "rworld \<Rightarrow> string \<Rightarrow> string \<Rightarrow> rworld" where
  "print_review w review filename =
     foldl pr w [MsgSeparator, MsgHeading filename, MsgModel MODEL, MsgSeparator,
                 MsgReview review, MsgSeparator]"

text \<open>\<^verbatim>\<open>main\<close>, given \<^verbatim>\<open>sys.argv\<close>.\<close>

definition main :: "rworld \<Rightarrow> string list \<Rightarrow> (pyerr + unit) \<times> rworld" where
  "main w argv =
     (if length argv \<noteq> 2 then (Inl (SystemExit 1), pr w MsgUsage)
      else let filepath = argv ! 1; filename = path_name filepath
           in case read_source_file w filepath of
                (Inl e, w1) \<Rightarrow> (Inl e, w1)
              | (Inr source_code, w1) \<Rightarrow>
                  (let w2 = warn_if_large w1 source_code;
                       w3 = pr w2 (MsgReviewing filename MODEL)
                   in case run_code_review w3 source_code filename of
                        (Inl e, w4) \<Rightarrow> (Inl e, w4)
                      | (Inr review, w4) \<Rightarrow> (Inr (), print_review w4 review filename)))"

text \<open>
  The status the process ends with: 0 after a normal return, the argument of
  \<^verbatim>\<open>sys.exit\<close>, and 1 after an exception nobody caught.
\<close>

fun exit_status :: "pyerr + unit \<Rightarrow> nat" where
  "exit_status (Inr _) = 0"
| "exit_status (Inl (SystemExit n)) = n"
| "exit_status (Inl _) = 1"

section \<open>Notions used to state the properties\<close>

text \<open>
  What \<^verbatim>\<open>int(record["age"])\<close> evaluates to on a dict, and the dict after the assignment
  \<^verbatim>\<open>record["age"] = int(record["age"])\<close> when that evaluation succeeds.
\<close>

definition dict_age :: "pydict \<Rightarrow> pyerr + int" where
  "dict_age d = (case getitem d ''age'' of Inl e \<Rightarrow> Inl e | Inr v \<Rightarrow> py_int v)"

definition converted :: "pydict \<Rightarrow> pydict" where
  "converted d = (case dict_age d of Inl e \<Rightarrow> d | Inr n \<Rightarrow> setitem d ''age'' (PInt n))"

text \<open>Calling \<^verbatim>\<open>normalize_age\<close> on its own result.\<close>

definition normalize_twice :: "world \<Rightarrow> addr list \<Rightarrow> (pyerr + addr list) \<times> world" where
  "normalize_twice w records =
     (case normalize_age w records of
        (Inl e, w1) \<Rightarrow> (Inl e, w1)
      | (Inr records1, w1) \<Rightarrow> normalize_age w1 records1)"

text \<open>
  The pipeline as the specification words it: the reader, then the normalizer, then the
  filter on the target, the first failure of a stage ending the run with that failure.
\<close>

definition and_then ::
  "(pyerr + 'a) \<times> world \<Rightarrow> ('a \<Rightarrow> world \<Rightarrow> (pyerr + 'b) \<times> world) \<Rightarrow> (pyerr + 'b) \<times> world" where
  "and_then r f = (case r of (Inl e, w) \<Rightarrow> (Inl e, w) | (Inr x, w) \<Rightarrow> f x w)"

definition pipeline_spec :: "world \<Rightarrow> string \<Rightarrow> pyval \<Rightarrow> (pyerr + addr list) \<times> world" where
  "pipeline_spec w filepath target =
     and_then (read_csv w filepath) (\<lambda>rows w1.
       and_then (normalize_age w1 rows) (\<lambda>records w2.
         filter_by_country w2 records target))"


subsection \<open>Example worlds\<close>

text \<open>The two rows of the end-to-end example, as the reader yields them.\<close>

definition users_rows :: "csv_item list" where
  "users_rows =
     [Row [(''name'', PStr ''A''), (''age'', PStr ''30''), (''country'', PStr ''Kenya'')],
      Row [(''name'', PStr ''B''), (''age'', PStr ''40''), (''country'', PStr ''Uganda'')]]"

definition users_text :: string where
  "users_text = ''name,age,country\<newline>A,30,Kenya\<newline>B,40,Uganda\<newline>''"

definition users_world :: world where
  "users_world =
     \<lparr>heap = (\<lambda>_. []), fresh = 0, fs = [''users.csv'' \<mapsto> Text users_text],
      handles = [], dict_reader = (\<lambda>_. users_rows)\<rparr>"

text \<open>A world whose heap holds the given dicts at the addresses 0, 1, ...\<close>

definition heap_of :: "pydict list \<Rightarrow> addr \<Rightarrow> pydict" where
  "heap_of ds a = (if a < length ds then ds ! a else [])"

definition world_of :: "pydict list \<Rightarrow> world" where
  "world_of ds =
     \<lparr>heap = heap_of ds, fresh = length ds, fs = Map.empty, handles = [],
      dict_reader = (\<lambda>_. [])\<rparr>"


text \<open>A file that opens and then fails to decode.\<close>

definition garbled_world :: world where
  "garbled_world =
     \<lparr>heap = (\<lambda>_. []), fresh = 0, fs = [''bad.csv'' \<mapsto> Garbled],
      handles = [], dict_reader = (\<lambda>_. [])\<rparr>"

text \<open>
  A world for the review script: a text file that is not a Python file, a Python file of
  white space only, and a Python file with white space around its one statement.
\<close>

definition review_world :: rworld where
  "review_world =
     \<lparr>rfs = [''notes.txt'' \<mapsto> Text ''x = 1\<newline>y = 2\<newline>'',
             ''blank.py'' \<mapsto> Text '' \<newline>  \<newline>'',
             ''app.py'' \<mapsto> Text ''\<newline>  x = 1  \<newline>''],
      stdout = [], trace = [], client_error = None, service = (\<lambda>_. Inr ''SUMMARY''),
      system_prompt = []\<rparr>"

section \<open>Properties of the filter\<close>

lemma filter_loop_acc:
  "\<forall>a \<in> set rs. map_of (heap w a) ''country'' \<noteq> None \<Longrightarrow>
   filter_loop w c rs acc =
     Inr (acc @ filter (\<lambda>a. map_of (heap w a) ''country'' = Some c) rs)"
  by (induction rs arbitrary: acc) (auto simp: getitem_def py_eq_def)

text \<open>
  C3.  When every record of the input carries a \<^verbatim>\<open>"country"\<close> field, \<^verbatim>\<open>filter_by_country\<close>
  returns without error the list of exactly those records of the input whose
  \<^verbatim>\<open>"country"\<close> equals the target, in the order of the input (a subsequence of it, empty
  when nothing matches), and leaves the world, and so every record, as it was.
\<close>

theorem filter_by_country_spec:
  assumes "\<forall>a \<in> set rs. map_of (heap w a) ''country'' \<noteq> None"
  shows "\<exists>out. filter_by_country w rs c = (Inr out, w)
           \<and> out = filter (\<lambda>a. map_of (heap w a) ''country'' = Some c) rs
           \<and> subseq out rs
           \<and> (\<forall>a. a \<in> set out \<longleftrightarrow> a \<in> set rs \<and> getitem (heap w a) ''country'' = Inr c)
           \<and> ((\<forall>a \<in> set rs. getitem (heap w a) ''country'' \<noteq> Inr c) \<longrightarrow> out = [])"
proof -
  let ?out = "filter (\<lambda>a. map_of (heap w a) ''country'' = Some c) rs"
  have run: "filter_by_country w rs c = (Inr ?out, w)"
    using filter_loop_acc [OF assms, of c "[]"] by (simp add: filter_by_country_def)
  have mem: "\<forall>a. a \<in> set ?out \<longleftrightarrow> a \<in> set rs \<and> getitem (heap w a) ''country'' = Inr c"
    by (auto simp: getitem_def split: option.splits)
  have none: "(\<forall>a \<in> set rs. getitem (heap w a) ''country'' \<noteq> Inr c) \<longrightarrow> ?out = []"
    by (auto simp: getitem_def filter_empty_conv split: option.splits)
  from run mem none show ?thesis by simp
qed

theorem filter_by_country_spec_witness:
  "filter_by_country
     (world_of [[(''name'', PStr ''A''), (''country'', PStr ''Kenya'')],
                [(''name'', PStr ''B''), (''country'', PStr ''Uganda'')],
                [(''name'', PStr ''C''), (''country'', PStr ''Kenya'')]])
     [0, 1, 2] (PStr ''Kenya'')
   = (Inr [0, 2],
      world_of [[(''name'', PStr ''A''), (''country'', PStr ''Kenya'')],
                [(''name'', PStr ''B''), (''country'', PStr ''Uganda'')],
                [(''name'', PStr ''C''), (''country'', PStr ''Kenya'')]])"
  using filter_by_country_spec
    [of "[0, 1, 2]"
        "world_of [[(''name'', PStr ''A''), (''country'', PStr ''Kenya'')],
                   [(''name'', PStr ''B''), (''country'', PStr ''Uganda'')],
                   [(''name'', PStr ''C''), (''country'', PStr ''Kenya'')]]"
        "PStr ''Kenya''"]
  by (simp add: world_of_def heap_of_def)

section \<open>Properties of the normalizer\<close>

lemma dict_age_converted: "dict_age (converted d) = dict_age d"
  by (auto simp: converted_def dict_age_def getitem_def setitem_def update_conv'
           split: sum.splits option.splits)

lemma converted_idem: "converted (converted d) = converted d"
proof (cases "dict_age d")
  case (Inl e)
  then show ?thesis by (simp add: converted_def)
next
  case (Inr n)
  have "map_of (setitem d ''age'' (PInt n)) ''age'' = Some (PInt n)"
    by (simp add: setitem_def update_conv')
  then have "setitem (setitem d ''age'' (PInt n)) ''age'' (PInt n) = setitem d ''age'' (PInt n)"
    unfolding setitem_def by (rule update_triv)
  with Inr dict_age_converted [of d] show ?thesis by (simp add: converted_def)
qed

lemma converted_numeric: "getitem d ''age'' = Inr (PInt n) \<Longrightarrow> converted d = d"
  by (auto simp: converted_def dict_age_def getitem_def setitem_def update_triv
           split: option.splits)

lemma dict_age_numeric: "getitem d ''age'' = Inr (PInt n) \<Longrightarrow> dict_age d = Inr n"
  by (simp add: dict_age_def)

text \<open>
  The loop, in closed form: it stops at the first record whose age does not convert, and
  the heap then holds the converted dicts of the records before that one.
\<close>

lemma normalize_loop_run:
  "normalize_loop w rs =
     ((case dropWhile (\<lambda>a. \<not> isl (dict_age (heap w a))) rs of
         [] \<Rightarrow> Inr ()
       | a # _ \<Rightarrow> Inl (projl (dict_age (heap w a)))),
      w\<lparr>heap := (\<lambda>a. if a \<in> set (takeWhile (\<lambda>a. \<not> isl (dict_age (heap w a))) rs)
                      then converted (heap w a) else heap w a)\<rparr>)"
proof (induction rs arbitrary: w)
  case Nil
  show ?case by simp
next
  case (Cons a rest)
  show ?case
  proof (cases "dict_age (heap w a)")
    case (Inl e)
    then have "normalize_loop w (a # rest) = (Inl e, w)"
      by (auto simp: dict_age_def split: sum.splits)
    with Inl show ?thesis by simp
  next
    case (Inr n)
    define w1 where "w1 = w\<lparr>heap := (heap w)(a := setitem (heap w a) ''age'' (PInt n))\<rparr>"
    have step: "normalize_loop w (a # rest) = normalize_loop w1 rest"
      using Inr by (auto simp: dict_age_def w1_def split: sum.splits)
    have conv: "converted (heap w a) = setitem (heap w a) ''age'' (PInt n)"
      using Inr by (simp add: converted_def)
    have h1: "heap w1 = (heap w)(a := converted (heap w a))"
      by (simp add: w1_def conv)
    have same: "\<And>b. dict_age (heap w1 b) = dict_age (heap w b)"
      by (simp add: h1 dict_age_converted)
    have heaps: "(\<lambda>b. if b \<in> set (takeWhile (\<lambda>a. \<not> isl (dict_age (heap w a))) rest)
                      then converted (heap w1 b) else heap w1 b)
               = (\<lambda>b. if b \<in> set (a # takeWhile (\<lambda>a. \<not> isl (dict_age (heap w a))) rest)
                      then converted (heap w b) else heap w b)"
      by (rule ext) (simp add: h1 converted_idem)
    have "w1\<lparr>heap := (\<lambda>b. if b \<in> set (takeWhile (\<lambda>a. \<not> isl (dict_age (heap w a))) rest)
                      then converted (heap w1 b) else heap w1 b)\<rparr>
        = w\<lparr>heap := (\<lambda>b. if b \<in> set (a # takeWhile (\<lambda>a. \<not> isl (dict_age (heap w a))) rest)
                      then converted (heap w b) else heap w b)\<rparr>"
      unfolding heaps by (simp add: w1_def)
    with Cons.IH [of w1] step Inr show ?thesis
      by (simp add: same cong: list.case_cong)
  qed
qed

lemma normalize_numeric:
  assumes "\<forall>a \<in> set rs. \<exists>n. getitem (heap w a) ''age'' = Inr (PInt n)"
  shows "normalize_age w rs = (Inr rs, w)"
proof -
  have ok: "\<forall>a \<in> set rs. \<not> isl (dict_age (heap w a))"
    using assms by (auto simp: dict_age_numeric)
  have keep: "\<forall>a \<in> set rs. converted (heap w a) = heap w a"
    using assms by (auto simp: converted_numeric)
  have tw: "takeWhile (\<lambda>a. \<not> isl (dict_age (heap w a))) rs = rs"
    using ok by (simp add: takeWhile_eq_all_conv)
  have dw: "dropWhile (\<lambda>a. \<not> isl (dict_age (heap w a))) rs = []"
    using ok by (simp add: dropWhile_eq_Nil_conv)
  have "(\<lambda>a. if a \<in> set rs then converted (heap w a) else heap w a) = heap w"
    using keep by (auto intro!: ext)
  then show ?thesis
    using normalize_loop_run [of w rs] by (simp add: normalize_age_def tw dw)
qed

text \<open>
  C1, as amended.  \<^verbatim>\<open>normalize_age\<close> converts the records in the order of the list.  When
  the age of every record converts it returns the list it was given, every record of it
  holding its age as an integer.  Otherwise it raises the exception of the first record
  whose age does not convert (\<^verbatim>\<open>KeyError\<close>, \<^verbatim>\<open>TypeError\<close> or \<^verbatim>\<open>ValueError\<close>); the records
  before that one stay converted in the heap, and every other dict is as it was.
\<close>

theorem normalize_age_outcome:
  "normalize_age w rs =
     ((case dropWhile (\<lambda>a. \<not> isl (dict_age (heap w a))) rs of
         [] \<Rightarrow> Inr rs
       | a # _ \<Rightarrow> Inl (projl (dict_age (heap w a)))),
      w\<lparr>heap := (\<lambda>a. if a \<in> set (takeWhile (\<lambda>a. \<not> isl (dict_age (heap w a))) rs)
                      then converted (heap w a) else heap w a)\<rparr>)"
  using normalize_loop_run [of w rs]
  by (cases "dropWhile (\<lambda>a. \<not> isl (dict_age (heap w a))) rs")
     (simp_all add: normalize_age_def del: dropWhile_eq_Nil_conv)

text \<open>
  The claim as stated fails: the second record does not parse, the call raises
  \<^verbatim>\<open>ValueError\<close>, and the first record has been converted all the same.
\<close>

theorem normalize_age_partial_counterexample:
  "fst (normalize_age (world_of [[(''age'', PStr ''30'')], [(''age'', PStr ''abc'')]]) [0, 1])
     = Inl ValueError
   \<and> heap (world_of [[(''age'', PStr ''30'')], [(''age'', PStr ''abc'')]]) 0
     = [(''age'', PStr ''30'')]
   \<and> heap (snd (normalize_age (world_of [[(''age'', PStr ''30'')], [(''age'', PStr ''abc'')]]) [0, 1])) 0
     = [(''age'', PInt 30)]"
  by code_simp

text \<open>
  C9.  On a RecordSet whose ages are integers already, \<^verbatim>\<open>normalize_age\<close> applied to its own
  result gives what one application gives: the same list, over an unchanged heap.
\<close>

theorem normalize_age_idempotent:
  assumes "\<forall>a \<in> set rs. \<exists>n. getitem (heap w a) ''age'' = Inr (PInt n)"
  shows "normalize_twice w rs = normalize_age w rs \<and> normalize_age w rs = (Inr rs, w)"
  using normalize_numeric [OF assms] by (simp add: normalize_twice_def)

theorem normalize_age_idempotent_witness:
  "normalize_twice (world_of [[(''age'', PInt 30)], [(''age'', PInt 40)]]) [0, 1]
     = normalize_age (world_of [[(''age'', PInt 30)], [(''age'', PInt 40)]]) [0, 1]
   \<and> normalize_age (world_of [[(''age'', PInt 30)], [(''age'', PInt 40)]]) [0, 1]
     = (Inr [0, 1], world_of [[(''age'', PInt 30)], [(''age'', PInt 40)]])"
  using normalize_age_idempotent
    [of "[0, 1]" "world_of [[(''age'', PInt 30)], [(''age'', PInt 40)]]"]
  by (simp add: world_of_def heap_of_def getitem_def)

section \<open>Properties of the aggregator\<close>

lemmas true_div_eval =
  py_true_div_def nearest_double_def ilog2_quot_def bits.simps round_half_even_def
  scale2_def Let_def

lemma true_div_30_1: "py_true_div 30 1 = Inr (Float 30)"
  by (simp add: true_div_eval)

lemma true_div_4_3: "py_true_div 4 3 = Inr (Float (6004799503160661 / 4503599627370496))"
  by (simp add: true_div_eval)

lemma bits_bound: "n < 2 ^ k \<Longrightarrow> bits n \<le> k"
proof (induction n arbitrary: k rule: bits.induct)
  case (1 n)
  show ?case
  proof (cases "n = 0")
    case True
    then show ?thesis by (simp add: bits.simps)
  next
    case False
    with "1.prems" obtain j where k: "k = Suc j"
      by (cases k) auto
    with "1.prems" have "n div 2 < 2 ^ j" by auto
    with "1.IH" [OF False] have "bits (n div 2) \<le> j" .
    with False k show ?thesis by (simp add: bits.simps [of n])
  qed
qed

lemma bits_upper: "n < 2 ^ bits n"
proof (induction n rule: bits.induct)
  case (1 n)
  show ?case
  proof (cases "n = 0")
    case True
    then show ?thesis by simp
  next
    case False
    with "1.IH" have "n div 2 < 2 ^ bits (n div 2)" by simp
    then have "n < 2 * 2 ^ bits (n div 2)" by linarith
    with False show ?thesis by (simp add: bits.simps [of n])
  qed
qed

lemma ilog2_quot_multiple:
  assumes "0 < b" "0 < q" "q < 2 ^ 53"
  shows "ilog2_quot (q * b) b \<le> 52"
proof -
  have "q * b < 2 ^ 53 * 2 ^ bits b"
    using assms bits_upper [of b] by (simp add: mult_strict_mono)
  then have "q * b < 2 ^ (53 + bits b)" by (simp add: power_add)
  then have le: "bits (q * b) \<le> 53 + bits b" by (rule bits_bound)
  have nc: "\<not> b * 2 ^ 53 \<le> q * b" using assms by simp
  show ?thesis
  proof (cases "int (bits (q * b)) - int (bits b) = 53")
    case True
    with nc show ?thesis by (simp add: ilog2_quot_def Let_def)
  next
    case False
    with le have "int (bits (q * b)) - int (bits b) \<le> 52" by linarith
    then show ?thesis by (simp add: ilog2_quot_def Let_def)
  qed
qed

lemma round_half_even_multiple: "0 < d \<Longrightarrow> round_half_even (n * d) d = n"
  by (simp add: round_half_even_def)

lemma nearest_double_multiple:
  assumes "0 < b" "0 < q" "q < 2 ^ 53"
  shows "nearest_double (q * b) b = of_nat q"
proof -
  define e where "e = max (ilog2_quot (q * b) b - 52) (- 1074)"
  have e0: "e \<le> 0" using ilog2_quot_multiple [OF assms] by (simp add: e_def)
  show ?thesis
  proof (cases "e = 0")
    case True
    then show ?thesis
      using assms round_half_even_multiple [of b q]
      by (simp add: nearest_double_def e_def [symmetric] scale2_def)
  next
    case False
    with e0 have neg: "e < 0" by simp
    have eq: "q * b * 2 ^ nat (- e) = (q * 2 ^ nat (- e)) * b" by (simp add: mult_ac)
    have "round_half_even (q * b * 2 ^ nat (- e)) b = q * 2 ^ nat (- e)"
      unfolding eq by (rule round_half_even_multiple [OF assms(1)])
    then show ?thesis
      using neg by (simp add: nearest_double_def e_def [symmetric] scale2_def)
  qed
qed

text \<open>A quotient that is an integer below \<open>2\<^sup>5\<^sup>3\<close> in magnitude is returned as it is.\<close>

lemma true_div_exact:
  assumes "0 < y" "\<bar>m\<bar> < 2 ^ 53"
  shows "py_true_div (m * y) y = Inr (Float (of_int m))"
proof (cases "m = 0")
  case True
  with assms show ?thesis by (simp add: py_true_div_def)
next
  case False
  define q where "q = nat \<bar>m\<bar>"
  have q: "0 < q" "q < 2 ^ 53" using False assms by (auto simp: q_def)
  have "nat \<bar>m * y\<bar> = q * nat y" using assms by (simp add: q_def abs_mult nat_mult_distrib)
  then have v: "nearest_double (nat \<bar>m * y\<bar>) (nat y) = of_nat q"
    using nearest_double_multiple [of "nat y" q] q assms by simp
  have small: "\<not> (2 ^ 1024 \<le> (of_nat q :: rat))"
  proof -
    have "(of_nat q :: rat) < 2 ^ 53" using q by (metis of_nat_less_iff of_nat_numeral of_nat_power)
    also have "\<dots> \<le> 2 ^ 1024" by simp
    finally show ?thesis by simp
  qed
  have sgn: "(m * y < 0) = (m < 0)" using assms by (simp add: mult_less_0_iff)
  have val: "(if m < 0 then - (of_nat q :: rat) else of_nat q) = of_int m"
    by (simp add: q_def)
  from assms False have nz: "m * y \<noteq> 0" "y \<noteq> 0" by auto
  show ?thesis
    using nz assms(1) small by (simp add: py_true_div_def Let_def v sgn val)
qed

lemma sum_loop_numeric:
  "\<forall>a \<in> set rs. getitem (heap w a) ''age'' = Inr (PInt (ages a)) \<Longrightarrow>
   sum_loop w rs tot = Inr (tot + sum_list (map ages rs))"
  by (induction rs arbitrary: tot) auto

text \<open>
  C2, as amended.  For the empty RecordSet \<^verbatim>\<open>get_average_age\<close> raises
  \<^verbatim>\<open>ZeroDivisionError\<close>.  For a RecordSet whose records all hold an integer age it returns
  the sum of the ages divided by the number of records as the true division of the
  language gives it: the double nearest to the arithmetic mean, or \<^verbatim>\<open>OverflowError\<close> when
  that is beyond the doubles.  When the mean is an integer below \<open>2\<^sup>5\<^sup>3\<close> in magnitude
  the result is the mean itself.  The call changes nothing in the world.
\<close>

theorem get_average_age_division:
  "get_average_age w [] = (Inl ZeroDivisionError, w)
   \<and> ((\<forall>a \<in> set rs. getitem (heap w a) ''age'' = Inr (PInt (ages a))) \<longrightarrow>
        get_average_age w rs = (py_true_div (sum_list (map ages rs)) (int (length rs)), w))
   \<and> ((\<forall>a \<in> set rs. getitem (heap w a) ''age'' = Inr (PInt (ages a)))
        \<and> rs \<noteq> [] \<and> sum_list (map ages rs) = m * int (length rs) \<and> \<bar>m\<bar> < 2 ^ 53 \<longrightarrow>
        get_average_age w rs = (Inr (Float (of_int m)), w))"
proof -
  have "get_average_age w [] = (Inl ZeroDivisionError, w)"
    by (simp add: get_average_age_def py_true_div_def)
  moreover have "get_average_age w rs = (py_true_div (sum_list (map ages rs)) (int (length rs)), w)"
    if "\<forall>a \<in> set rs. getitem (heap w a) ''age'' = Inr (PInt (ages a))"
    using sum_loop_numeric [OF that, of 0] by (simp add: get_average_age_def)
  moreover have "get_average_age w rs = (Inr (Float (of_int m)), w)"
    if "\<forall>a \<in> set rs. getitem (heap w a) ''age'' = Inr (PInt (ages a))"
      and "rs \<noteq> []" and "sum_list (map ages rs) = m * int (length rs)" and "\<bar>m\<bar> < 2 ^ 53"
  proof -
    have "0 < int (length rs)" using that(2) by simp
    from true_div_exact [OF this that(4)] sum_loop_numeric [OF that(1), of 0] that(3)
    show ?thesis by (simp add: get_average_age_def)
  qed
  ultimately show ?thesis by blast
qed

theorem get_average_age_division_witness:
  "get_average_age (world_of [[(''name'', PStr ''A''), (''age'', PInt 30)]]) [] =
     (Inl ZeroDivisionError, world_of [[(''name'', PStr ''A''), (''age'', PInt 30)]])
   \<and> get_average_age (world_of [[(''name'', PStr ''A''), (''age'', PInt 30)]]) [0] =
     (Inr (Float 30), world_of [[(''name'', PStr ''A''), (''age'', PInt 30)]])"
  using get_average_age_division
    [of "world_of [[(''name'', PStr ''A''), (''age'', PInt 30)]]" "[0]" "\<lambda>_. 30" 30]
  by (simp add: world_of_def heap_of_def getitem_def true_div_30_1)

text \<open>
  The claim as stated fails: the ages 1, 1 and 2 have the mean \<open>4 / 3\<close>, and the float
  returned is the double next to it.
\<close>

theorem get_average_age_exact_counterexample:
  "fst (get_average_age
          (world_of [[(''age'', PInt 1)], [(''age'', PInt 1)], [(''age'', PInt 2)]]) [0, 1, 2])
     = Inr (Float (6004799503160661 / 4503599627370496))
   \<and> (6004799503160661 / 4503599627370496 :: rat) \<noteq> (1 + 1 + 2) / 3"
  by (simp add: get_average_age_def world_of_def heap_of_def getitem_def true_div_4_3)

section \<open>Properties of the reader and of the pipeline\<close>

lemma read_rows_handles: "read_rows w items acc = (r, w') \<Longrightarrow> handles w' = handles w"
proof (induction items arbitrary: w acc)
  case Nil
  then show ?case by simp
next
  case (Cons item items)
  then show ?case by (cases item) auto
qed

text \<open>When \<^verbatim>\<open>read_csv\<close> returns its rows, the handle it opened is closed again.\<close>

lemma read_opened_closes_on_return:
  assumes "read_opened w p items = (Inr rows, w')"
  shows "handles w' = handles w"
proof -
  obtain r w1 where rr: "read_rows (w\<lparr>handles := p # handles w\<rparr>) items [] = (r, w1)"
    by (cases "read_rows (w\<lparr>handles := p # handles w\<rparr>) items []") auto
  from read_rows_handles [OF rr] have h1: "handles w1 = p # handles w" by simp
  from assms rr have "w' = close_handle w1 p"
    by (cases r) (auto simp: read_opened_def)
  with h1 show ?thesis by (simp add: close_handle_def)
qed

lemma read_csv_closes_on_return:
  assumes "read_csv w p = (Inr rows, w')"
  shows "handles w' = handles w"
  using assms
  by (auto simp: read_csv_def split: option.splits fnode.splits
           dest: read_opened_closes_on_return)

text \<open>
  C4 fails on the code.  When the reader raises while the rows are read, \<^verbatim>\<open>read_csv\<close> is
  left by the exception before \<^verbatim>\<open>f.close()\<close>: the handle it opened is still open.
\<close>

theorem read_csv_leaves_handle_open:
  "fst (read_csv garbled_world ''bad.csv'') = Inl UnicodeDecodeError
   \<and> handles garbled_world = []
   \<and> handles (snd (read_csv garbled_world ''bad.csv'')) = [''bad.csv'']"
  by (simp add: read_csv_def read_opened_def garbled_world_def)

lemma int_of_str_30: "int_of_str ''30'' = Inr 30"
  by code_simp

lemma int_of_str_40: "int_of_str ''40'' = Inr 40"
  by code_simp

text \<open>
  C7.  \<^verbatim>\<open>load_and_process\<close> is the reader, then the normalizer, then the filter on the
  target country, the first failure of a stage being the failure of the whole.  On a file
  for which the reader yields the two rows of the example, the target \<^verbatim>\<open>"Kenya"\<close> gives
  the one record of A, its age the integer 30, and the average age of that result is
  \<open>30.0\<close>.
\<close>

theorem load_and_process_pipeline:
  "load_and_process w p c = pipeline_spec w p c
   \<and> (fs w p = Some (Text t) \<and> dict_reader w t = users_rows \<longrightarrow>
        (\<exists>w'. load_and_process w p (PStr ''Kenya'') = (Inr [fresh w], w')
              \<and> heap w' (fresh w) =
                  [(''name'', PStr ''A''), (''age'', PInt 30), (''country'', PStr ''Kenya'')]
              \<and> get_average_age w' [fresh w] = (Inr (Float 30), w')))"
proof -
  have "load_and_process w p c = pipeline_spec w p c"
    by (simp add: load_and_process_def pipeline_spec_def and_then_def split: prod.splits sum.splits)
  moreover have "\<exists>w'. load_and_process w p (PStr ''Kenya'') = (Inr [fresh w], w')
              \<and> heap w' (fresh w) =
                  [(''name'', PStr ''A''), (''age'', PInt 30), (''country'', PStr ''Kenya'')]
              \<and> get_average_age w' [fresh w] = (Inr (Float 30), w')"
    if "fs w p = Some (Text t)" "dict_reader w t = users_rows"
    using that
    by (simp add: load_and_process_def read_csv_def read_opened_def users_rows_def
          close_handle_def normalize_age_def filter_by_country_def getitem_def setitem_def
          py_eq_def int_of_str_30 int_of_str_40 get_average_age_def true_div_30_1)
  ultimately show ?thesis by blast
qed

theorem load_and_process_pipeline_witness:
  "fst (load_and_process users_world ''users.csv'' (PStr ''Kenya'')) = Inr [0]
   \<and> heap (snd (load_and_process users_world ''users.csv'' (PStr ''Kenya''))) 0 =
        [(''name'', PStr ''A''), (''age'', PInt 30), (''country'', PStr ''Kenya'')]
   \<and> fst (get_average_age (snd (load_and_process users_world ''users.csv'' (PStr ''Kenya''))) [0])
        = Inr (Float 30)"
proof -
  have pre: "fs users_world ''users.csv'' = Some (Text users_text)
             \<and> dict_reader users_world users_text = users_rows"
    by (simp add: users_world_def)
  have at0: "fresh users_world = 0"
    by (simp add: users_world_def)
  from load_and_process_pipeline [of users_world "''users.csv''" "PStr ''Kenya''" users_text] pre
  obtain w' where
    "load_and_process users_world ''users.csv'' (PStr ''Kenya'') = (Inr [fresh users_world], w')"
    "heap w' (fresh users_world) =
       [(''name'', PStr ''A''), (''age'', PInt 30), (''country'', PStr ''Kenya'')]"
    "get_average_age w' [fresh users_world] = (Inr (Float 30), w')"
    by blast
  then show ?thesis by (simp add: at0)
qed

section \<open>Properties of the writer\<close>

lemma char_eq_code: "(of_char c :: nat) = n \<Longrightarrow> c = char_of n"
  by auto

lemma char_of_lits:
  "char_of (34::nat) = CHR 0x22" "char_of (92::nat) = CHR 0x5C" "char_of (10::nat) = CHR 0x0A"
  "char_of (13::nat) = CHR 0x0D" "char_of (9::nat) = CHR 0x09" "char_of (8::nat) = CHR 0x08"
  "char_of (12::nat) = CHR 0x0C"
  by (rule char_eq_code [symmetric], simp)+

lemma hex_val_hex_char: "k < 16 \<Longrightarrow> hex_val (hex_char k) = Some k"
  by (auto simp: hex_val_def hex_char_def Let_def)

lemma scan_esc: "scan_string (esc_char c @ rest) acc = scan_string rest (acc @ [c])"
proof -
  define n where "n = (of_char c :: nat)"
  have c: "c = char_of n" by (simp add: n_def)
  have cn: "char_of n = c" by (simp add: n_def)
  have n256: "n < 256" by (simp add: n_def)
  consider "n = 34" | "n = 92" | "n = 10" | "n = 13" | "n = 9" | "n = 8" | "n = 12"
    | "32 \<le> n" "n \<le> 126" "n \<noteq> 34" "n \<noteq> 92"
    | "n < 32" "n \<noteq> 10" "n \<noteq> 13" "n \<noteq> 9" "n \<noteq> 8" "n \<noteq> 12"
    | "126 < n"
    by linarith
  then show ?thesis
  proof cases
    case 8
    then have "esc_char c = [c]" by (simp add: esc_char_def n_def [symmetric])
    moreover have "c \<noteq> CHR 0x22" "c \<noteq> CHR 0x5C" using 8 n_def by auto
    moreover have "\<not> (of_char c :: nat) < 32" using 8 n_def by simp
    ultimately show ?thesis by simp
  next
    case 9
    then have e: "esc_char c = CHR 0x5C # CHR ''u'' # hex4 n"
      by (simp add: esc_char_def n_def [symmetric])
    have d: "n div 4096 mod 16 = 0" "n div 256 mod 16 = 0" "n div 16 mod 16 = n div 16"
      using n256 by auto
    have h: "hex_val (hex_char 0) = Some 0" "hex_val (hex_char (n div 16)) = Some (n div 16)"
      "hex_val (hex_char (n mod 16)) = Some (n mod 16)"
      using n256 by (auto intro!: hex_val_hex_char)
    show ?thesis using n256 by (simp add: e hex4_def d h cn)
  next
    case 10
    then have e: "esc_char c = CHR 0x5C # CHR ''u'' # hex4 n"
      by (simp add: esc_char_def n_def [symmetric])
    have d: "n div 4096 mod 16 = 0" "n div 256 mod 16 = 0" "n div 16 mod 16 = n div 16"
      using n256 by auto
    have h: "hex_val (hex_char 0) = Some 0" "hex_val (hex_char (n div 16)) = Some (n div 16)"
      "hex_val (hex_char (n mod 16)) = Some (n mod 16)"
      using n256 by (auto intro!: hex_val_hex_char)
    show ?thesis using n256 by (simp add: e hex4_def d h cn)
  qed (simp_all add: esc_char_def n_def [symmetric] c unescape_def char_of_lits)
qed

lemma scan_concat:
  "scan_string (concat (map esc_char s) @ CHR 0x22 # rest) acc = Some (acc @ s, rest)"
  by (induction s arbitrary: acc) (simp_all add: scan_esc)

lemma scan_enc_str: "scan_string (tl (enc_str s) @ rest) [] = Some (s, rest)"
  using scan_concat [of s rest "[]"] by (simp add: enc_str_def)

































section \<open>Properties of the review script\<close>

lemmas loader_eval =
  read_source_file_def read_text_def pr_def log_event_def Let_def



text \<open>
  C6.  With an argument vector of any length but two (the program and one argument),
  \<^verbatim>\<open>main\<close> prints the usage line and exits with status 1 without touching the file system
  or the service.  With one argument that names an existing file whose suffix is not
  \<^verbatim>\<open>.py\<close>, it prints the wrong-type message and exits with status 1; the only access made
  is the existence test, so the file is not read and the service is not called.
\<close>

theorem main_rejects_early:
  "(length argv \<noteq> 2 \<longrightarrow>
      main w argv = (Inl (SystemExit 1), w\<lparr>stdout := stdout w @ [MsgUsage]\<rparr>)
      \<and> trace (snd (main w argv)) = trace w
      \<and> exit_status (fst (main w argv)) = 1)
   \<and> (rfs w p = Some node \<and> path_suffix p \<noteq> ''.py'' \<longrightarrow>
      main w [prog, p] =
        (Inl (SystemExit 1),
         w\<lparr>stdout := stdout w @ [MsgWrongType (path_suffix p)], trace := trace w @ [Exists p]\<rparr>)
      \<and> trace (snd (main w [prog, p])) = trace w @ [Exists p]
      \<and> exit_status (fst (main w [prog, p])) = 1)"
  by (simp add: main_def loader_eval)

theorem main_rejects_early_witness:
  "main review_world [''review.py''] =
     (Inl (SystemExit 1), review_world\<lparr>stdout := [MsgUsage]\<rparr>)
   \<and> main review_world [''review.py'', ''a.py'', ''b.py''] =
     (Inl (SystemExit 1), review_world\<lparr>stdout := [MsgUsage]\<rparr>)
   \<and> main review_world [''review.py'', ''notes.txt''] =
     (Inl (SystemExit 1),
      review_world\<lparr>stdout := [MsgWrongType ''.txt''], trace := [Exists ''notes.txt'']\<rparr>)
   \<and> exit_status (fst (main review_world [''review.py'', ''notes.txt''])) = 1"
proof -
  have sfx: "path_suffix ''notes.txt'' = ''.txt''"
    by code_simp
  have b: "rfs review_world ''notes.txt'' = Some (Text ''x = 1\<newline>y = 2\<newline>'')"
    and d: "stdout review_world = []" "trace review_world = []"
    by (simp_all add: review_world_def)
  show ?thesis
    using main_rejects_early [of "[''review.py'']" review_world p0 node0 prog0]
      main_rejects_early [of "[''review.py'', ''a.py'', ''b.py'']" review_world p1 node1 prog1]
      main_rejects_early [of argv2 review_world "''notes.txt''"
        "Text ''x = 1\<newline>y = 2\<newline>''" "''review.py''"]
    by (simp add: b d sfx)
qed



end
